theory Spec2Isabelle
  imports Main "HOL-Library.Word"
begin

unbundle bit_operations_syntax

section \<open>Machine types\<close>

text \<open>
  \<^verbatim>\<open>src/net/secure_socket.cc\<close> on an LP64 platform: \<^verbatim>\<open>int\<close> has 32 bits; \<^verbatim>\<open>size_t\<close>,
  \<^verbatim>\<open>ssize_t\<close>, \<^verbatim>\<open>long\<close> and \<^verbatim>\<open>unsigned long\<close> have 64. Signed values are read with
  \<open>sint\<close>, unsigned ones with \<open>unat\<close>; an \<^verbatim>\<open>int\<close> widened to a 64-bit type is
  sign-extended (\<open>scast\<close>), a \<^verbatim>\<open>size_t\<close> narrowed to \<^verbatim>\<open>int\<close> keeps its low 32 bits
  (\<open>ucast\<close>).
\<close>

type_synonym c_int = "32 word"
type_synonym c_long = "64 word"
type_synonym c_ulong = "64 word"
type_synonym size_t = "64 word"
type_synonym ssize_t = "64 word"

section \<open>Exceptions and aborts\<close>

text \<open>
  \<open>ssl_error\<close> and \<open>runtime_error\<close> are the two exceptions the file throws, each with
  the string it is built from. \<open>out_of_range\<close> is what \<^verbatim>\<open>vector::at\<close> throws.
  \<open>assertion_failed\<close> is a failed \<^verbatim>\<open>assert\<close>, which aborts the process (the file is
  modelled as compiled: with \<^verbatim>\<open>assert\<close> active, that is without \<^verbatim>\<open>NDEBUG\<close>).
  \<open>length_error\<close> is a vector built with an impossible size, and
  \<open>undefined_behaviour\<close> marks a read past the end of the local buffer.
\<close>

datatype exn =
    ssl_error string
  | runtime_error string
  | out_of_range
  | length_error
  | assertion_failed string
  | undefined_behaviour

section \<open>The TLS library, an external collaborator\<close>

text \<open>
  The library is not part of the program. Every call the file makes to it is recorded, in
  order, with the arguments that matter; what the library answers is a parameter of the
  model (\<open>tls_library\<close>), so that each theorem says for which answers it holds.
\<close>

datatype lib_call =
    CRYPTO_num_locks
  | SSL_library_init
  | OpenSSL_add_all_algorithms
  | SSL_load_error_strings
  | CRYPTO_set_locking_callback
  | CRYPTO_set_id_callback
  | SSLv23_client_method
  | SSL_CTX_new
  | SSL_new
  | SSL_set_fd c_int
  | SSL_set_mode c_long
  | SSL_connect
  | SSL_accept
  | SSL_read c_int
  | SSL_pending
  | SSL_get_error c_int
  | ERR_get_error
  | SSL_write string c_int

text \<open>The name of each library function, as the source spells the call.\<close>

fun op_name :: "lib_call \<Rightarrow> string" where
  "op_name CRYPTO_num_locks = ''CRYPTO_num_locks''"
| "op_name SSL_library_init = ''SSL_library_init''"
| "op_name OpenSSL_add_all_algorithms = ''OpenSSL_add_all_algorithms''"
| "op_name SSL_load_error_strings = ''SSL_load_error_strings''"
| "op_name CRYPTO_set_locking_callback = ''CRYPTO_set_locking_callback''"
| "op_name CRYPTO_set_id_callback = ''CRYPTO_set_id_callback''"
| "op_name SSLv23_client_method = ''SSLv23_client_method''"
| "op_name SSL_CTX_new = ''SSL_CTX_new''"
| "op_name SSL_new = ''SSL_new''"
| "op_name (SSL_set_fd _) = ''SSL_set_fd''"
| "op_name (SSL_set_mode _) = ''SSL_set_mode''"
| "op_name SSL_connect = ''SSL_connect''"
| "op_name SSL_accept = ''SSL_accept''"
| "op_name (SSL_read _) = ''SSL_read''"
| "op_name SSL_pending = ''SSL_pending''"
| "op_name (SSL_get_error _) = ''SSL_get_error''"
| "op_name ERR_get_error = ''ERR_get_error''"
| "op_name (SSL_write _ _) = ''SSL_write''"

text \<open>
  A session handle (\<^verbatim>\<open>SSL *\<close>) as far as the file touches it: the descriptor
  \<^verbatim>\<open>SSL_set_fd\<close> bound it to and the mode bits \<^verbatim>\<open>SSL_set_mode\<close> set. A configuration
  handle (\<^verbatim>\<open>SSL_CTX *\<close>) is opaque. A null pointer is \<open>None\<close>.
\<close>

record SSL =
  bound_fd :: "c_int option"
  mode :: c_long

datatype SSL_CTX = SSL_CTX nat

text \<open>
  What the library answers to the calls of one operation. \<open>SSL_read_buffer\<close> is the
  content of the 16384-byte array \<^verbatim>\<open>buffer\<close> after \<^verbatim>\<open>SSL_read\<close> returned, by index.
\<close>

record tls_library =
  CRYPTO_num_locks_result :: c_int
  SSL_CTX_new_result :: "SSL_CTX option"
  SSL_new_result :: "SSL option"
  SSL_set_fd_result :: c_int
  SSL_connect_result :: c_int
  SSL_accept_result :: c_int
  SSL_read_result :: c_int
  SSL_read_buffer :: "nat \<Rightarrow> char"
  SSL_pending_result :: c_int
  SSL_get_error_result :: "c_int \<Rightarrow> c_int"
  ERR_get_error_result :: c_ulong
  SSL_write_result :: c_int

text \<open>
  Modelled from the spec: the constants of the library's headers, which are not under
  src/. \<open>SSL_ERROR_ZERO_RETURN\<close> is the classification "clean protocol-level shutdown",
  \<open>SSL_ERROR_SYSCALL\<close> is "the underlying transport closed without a clean protocol
  shutdown", \<open>CRYPTO_LOCK\<close> is the lock-intent bit of the locking callback's mode and
  \<open>SSL_MODE_AUTO_RETRY\<close> the automatic-retry mode bit. The values are OpenSSL's.
\<close>

definition SSL_ERROR_SYSCALL :: c_int where
  "SSL_ERROR_SYSCALL = 5"

definition SSL_ERROR_ZERO_RETURN :: c_int where
  "SSL_ERROR_ZERO_RETURN = 6"

definition CRYPTO_LOCK :: c_int where
  "CRYPTO_LOCK = 1"

definition CRYPTO_UNLOCK :: c_int where
  "CRYPTO_UNLOCK = 2"

definition SSL_MODE_AUTO_RETRY :: c_long where
  "SSL_MODE_AUTO_RETRY = 4"

text \<open>
  Modelled from the spec: \<^verbatim>\<open>SSL_set_fd\<close> and \<^verbatim>\<open>SSL_set_mode\<close> of the library ("binding a
  session to a file descriptor", "configures the session for automatic transparent
  retry"). A successful binding stores the descriptor in the handle; setting a mode adds
  its bits.
\<close>

definition set_fd :: "SSL \<Rightarrow> c_int \<Rightarrow> SSL" where
  "set_fd h fd = h\<lparr>bound_fd := Some fd\<rparr>"

definition set_mode :: "SSL \<Rightarrow> c_long \<Rightarrow> SSL" where
  "set_mode h m = h\<lparr>mode := mode h OR m\<rparr>"

section \<open>The raw socket\<close>

text \<open>
  Modelled from the spec: \<^verbatim>\<open>TCPSocket\<close> and its base classes (\<^verbatim>\<open>secure_socket.hh\<close> and
  the socket headers are not under src/). A raw socket holds its descriptor and an
  end-of-file mark; \<^verbatim>\<open>register_read\<close> and \<^verbatim>\<open>register_write\<close> are the "two independent
  notifications" to the event mechanism, counted here; \<^verbatim>\<open>set_eof\<close> marks end-of-file.
\<close>

record TCPSocket =
  fd_num :: c_int
  eof :: bool
  read_count :: nat
  write_count :: nat

definition register_read :: "'a TCPSocket_scheme \<Rightarrow> 'a TCPSocket_scheme" where
  "register_read s = s\<lparr>read_count := read_count s + 1\<rparr>"

definition register_write :: "'a TCPSocket_scheme \<Rightarrow> 'a TCPSocket_scheme" where
  "register_write s = s\<lparr>write_count := write_count s + 1\<rparr>"

definition set_eof :: "'a TCPSocket_scheme \<Rightarrow> 'a TCPSocket_scheme" where
  "set_eof s = s\<lparr>eof := True\<rparr>"

section \<open>class OpenSSL: the process-wide initializer\<close>

text \<open>
  A \<^verbatim>\<open>std::mutex\<close> is free or held. \<^verbatim>\<open>lock()\<close> returns once the caller holds the mutex
  and \<^verbatim>\<open>unlock()\<close> releases it; waiting for another thread is outside this sequential
  model of one callback invocation.
\<close>

datatype mutex = Unlocked | Locked

text \<open>
  The members \<^verbatim>\<open>locks_\<close>, \<^verbatim>\<open>ctx_\<close> and \<^verbatim>\<open>ssl_\<close> are the fields \<open>locks\<close>, \<open>ctx\<close> and
  \<open>ssl\<close> (a name cannot end in an underscore here).
\<close>

record OpenSSL =
  locks :: "mutex list"

text \<open>
  \<^verbatim>\<open>vector::at( n )\<close> with an \<^verbatim>\<open>int\<close> argument: the index is converted to \<^verbatim>\<open>size_t\<close>
  (sign-extended, so a negative \<^verbatim>\<open>n\<close> becomes a huge index) and checked against the
  size; the result is the position, or \<^verbatim>\<open>std::out_of_range\<close>.
\<close>

definition at :: "'a list \<Rightarrow> c_int \<Rightarrow> exn + nat" where
  "at xs n =
     (let i = (scast n :: size_t)
      in if unat i < length xs then Inr (unat i) else Inl out_of_range)"

definition locking_function :: "OpenSSL \<Rightarrow> c_int \<Rightarrow> c_int \<Rightarrow> exn + OpenSSL" where
  "locking_function os md n =
     (if md AND CRYPTO_LOCK \<noteq> 0 then
        (case at (locks os) n of
           Inl e \<Rightarrow> Inl e
         | Inr i \<Rightarrow> Inr (os\<lparr>locks := (locks os)[i := Locked]\<rparr>))
      else
        (case at (locks os) n of
           Inl e \<Rightarrow> Inl e
         | Inr i \<Rightarrow> Inr (os\<lparr>locks := (locks os)[i := Unlocked]\<rparr>)))"

text \<open>
  The constructor: \<^verbatim>\<open>locks_( CRYPTO_num_locks() )\<close> builds one free mutex per slot (the
  \<^verbatim>\<open>int\<close> count is converted to \<^verbatim>\<open>size_t\<close>, so a negative count is an impossible size),
  then the library is initialised and the two callbacks are registered.
\<close>

definition OpenSSL_ctor :: "tls_library \<Rightarrow> (exn + OpenSSL) \<times> lib_call list" where
  "OpenSSL_ctor lib =
     (let n = CRYPTO_num_locks_result lib
      in if sint n < 0 then (Inl length_error, [CRYPTO_num_locks])
         else (Inr \<lparr>locks = replicate (unat (scast n :: size_t)) Unlocked\<rparr>,
               [CRYPTO_num_locks, SSL_library_init, OpenSSL_add_all_algorithms,
                SSL_load_error_strings, CRYPTO_set_locking_callback,
                CRYPTO_set_id_callback]))"

text \<open>
  \<^verbatim>\<open>global_context()\<close>: the function-local static is constructed on the first call only.
  The process-wide instance is \<open>None\<close> before that.
\<close>

definition global_context ::
  "tls_library \<Rightarrow> OpenSSL option \<Rightarrow> (exn + OpenSSL) \<times> OpenSSL option \<times> lib_call list" where
  "global_context lib g =
     (case g of
        Some os \<Rightarrow> (Inr os, g, [])
      | None \<Rightarrow>
          (case OpenSSL_ctor lib of
             (Inl e, calls) \<Rightarrow> (Inl e, None, calls)
           | (Inr os, calls) \<Rightarrow> (Inr os, Some os, calls)))"

section \<open>SSLContext\<close>

definition initialize_new_context ::
  "tls_library \<Rightarrow> OpenSSL option \<Rightarrow> (exn + SSL_CTX) \<times> OpenSSL option \<times> lib_call list" where
  "initialize_new_context lib g =
     (case global_context lib g of
        (Inl e, g', calls) \<Rightarrow> (Inl e, g', calls)
      | (Inr _, g', calls) \<Rightarrow>
          (case SSL_CTX_new_result lib of
             None \<Rightarrow>
               (Inl (ssl_error ''SSL_CTL_new''), g', calls @ [SSLv23_client_method, SSL_CTX_new])
           | Some ret \<Rightarrow>
               (Inr ret, g', calls @ [SSLv23_client_method, SSL_CTX_new])))"

record SSLContext =
  ctx :: SSL_CTX

definition SSLContext ::
  "tls_library \<Rightarrow> OpenSSL option \<Rightarrow> (exn + SSLContext) \<times> OpenSSL option \<times> lib_call list" where
  "SSLContext lib g =
     (case initialize_new_context lib g of
        (Inl e, g', calls) \<Rightarrow> (Inl e, g', calls)
      | (Inr ret, g', calls) \<Rightarrow> (Inr \<lparr>ctx = ret\<rparr>, g', calls))"

section \<open>SecureSocket\<close>

record SecureSocket = TCPSocket +
  ssl :: SSL

text \<open>
  The constructor moves the raw socket into the base object and takes the session
  handle; it yields the object, or the exception thrown (then no object exists).
\<close>

definition SecureSocket ::
  "tls_library \<Rightarrow> TCPSocket \<Rightarrow> SSL option \<Rightarrow> (exn + SecureSocket) \<times> lib_call list" where
  "SecureSocket lib sock h =
     (case h of
        None \<Rightarrow>
          (Inl (runtime_error ''SecureSocket: constructor must be passed valid SSL structure''), [])
      | Some p \<Rightarrow>
          if SSL_set_fd_result lib = 0 then
            (Inl (ssl_error ''SSL_set_fd''), [SSL_set_fd (fd_num sock)])
          else
            (Inr \<lparr>fd_num = fd_num sock, eof = eof sock,
                  read_count = read_count sock, write_count = write_count sock,
                  ssl = set_mode (set_fd p (fd_num sock)) SSL_MODE_AUTO_RETRY\<rparr>,
             [SSL_set_fd (fd_num sock), SSL_set_mode SSL_MODE_AUTO_RETRY]))"

definition new_secure_socket ::
  "tls_library \<Rightarrow> SSLContext \<Rightarrow> TCPSocket \<Rightarrow> (exn + SecureSocket) \<times> lib_call list" where
  "new_secure_socket lib c sock =
     (case SecureSocket lib sock (SSL_new_result lib) of
        (r, calls) \<Rightarrow> (r, SSL_new # calls))"

text \<open>
  Each member function yields its outcome (the exception, or the value returned), the
  object afterwards and the library calls it made, in order.
\<close>

definition outcome :: "'r \<times> 's \<times> 'c \<Rightarrow> 'r" where
  "outcome x = fst x"

definition after :: "'r \<times> 's \<times> 'c \<Rightarrow> 's" where
  "after x = fst (snd x)"

definition calls_of :: "'r \<times> 's \<times> 'c \<Rightarrow> 'c" where
  "calls_of x = snd (snd x)"

definition connect ::
  "tls_library \<Rightarrow> SecureSocket \<Rightarrow> (exn + unit) \<times> SecureSocket \<times> lib_call list" where
  "connect lib s =
     (if SSL_connect_result lib = 0 then
        (Inl (ssl_error ''SSL_connect''), s, [SSL_connect])
      else
        (Inr (), register_write (register_read s), [SSL_connect]))"

text \<open>
  In \<^verbatim>\<open>accept\<close>, both branches of the \<^verbatim>\<open>if\<close> leave the function (one returns, the other
  throws): the \<^verbatim>\<open>register_read()\<close> that follows the \<^verbatim>\<open>if\<close> on line 111 is never reached.
\<close>

definition accept ::
  "tls_library \<Rightarrow> SecureSocket \<Rightarrow> (exn + unit) \<times> SecureSocket \<times> lib_call list" where
  "accept lib s =
     (let ret = SSL_accept_result lib
      in if ret = 1 then (Inr (), s, [SSL_accept])
         else (Inl (ssl_error ''SSL_accept''), s, [SSL_accept]))"

definition SSL_max_record_length :: size_t where
  "SSL_max_record_length = 16384"

text \<open>
  \<^verbatim>\<open>string( buffer, bytes_read )\<close>: the first \<^verbatim>\<open>bytes_read\<close> bytes of the array; a count
  beyond the array's 16384 bytes reads past its end.
\<close>

definition string_of_buffer :: "(nat \<Rightarrow> char) \<Rightarrow> ssize_t \<Rightarrow> exn + string" where
  "string_of_buffer buffer bytes_read =
     (if unat bytes_read \<le> unat SSL_max_record_length
      then Inr (map buffer [0..<unat bytes_read])
      else Inl undefined_behaviour)"

definition read ::
  "tls_library \<Rightarrow> SecureSocket \<Rightarrow> (exn + string) \<times> SecureSocket \<times> lib_call list" where
  "read lib s =
     (let buffer = SSL_read_buffer lib;
          bytes_read = (scast (SSL_read_result lib) :: ssize_t);
          calls = [SSL_read (ucast SSL_max_record_length), SSL_pending]
      in if 0 \<noteq> SSL_pending_result lib then
           (Inl (assertion_failed ''0 == SSL_pending( ssl_.get() )''), s, calls)
         else if bytes_read = 0 then
           (let error_return = SSL_get_error_result lib (ucast bytes_read);
                calls = calls @ [SSL_get_error (ucast bytes_read)]
            in if SSL_ERROR_ZERO_RETURN = error_return then
                 (Inr [], register_read (set_eof s), calls)
               else if SSL_ERROR_SYSCALL = error_return then
                 (if ERR_get_error_result lib = 0 then
                    (Inr [], register_read (set_eof s), calls @ [ERR_get_error])
                  else
                    (Inl (assertion_failed ''ERR_get_error() == 0''), s,
                     calls @ [ERR_get_error]))
               else
                 (Inr [], register_read s, calls))
         else if sint bytes_read < 0 then
           (Inl (ssl_error ''SSL_read''), s, calls)
         else
           (case string_of_buffer buffer bytes_read of
              Inl e \<Rightarrow> (Inl e, register_read s, calls)
            | Inr str \<Rightarrow> (Inr str, register_read s, calls)))"

text \<open>
  \<^verbatim>\<open>SecureSocket::write\<close> (\<open>write\<close> is a keyword of the proof language, hence the
  longer name). The length of the message, a \<^verbatim>\<open>size_t\<close>, is narrowed to the \<^verbatim>\<open>int\<close>
  parameter of \<^verbatim>\<open>SSL_write\<close>.
\<close>

definition write_message ::
  "tls_library \<Rightarrow> SecureSocket \<Rightarrow> string \<Rightarrow> (exn + unit) \<times> SecureSocket \<times> lib_call list" where
  "write_message lib s message =
     (let bytes_written = (scast (SSL_write_result lib) :: ssize_t);
          calls = [SSL_write message (ucast (word_of_nat (length message) :: size_t))]
      in if sint bytes_written < 0 then
           (Inl (ssl_error ''SSL_write''), s, calls)
         else
           (Inr (), register_write s, calls))"

definition get_error ::
  "tls_library \<Rightarrow> SecureSocket \<Rightarrow> c_int \<Rightarrow> c_int \<times> SecureSocket \<times> lib_call list" where
  "get_error lib s return_value =
     (SSL_get_error_result lib return_value, s, [SSL_get_error return_value])"

section \<open>Sequences of operations on one session\<close>

text \<open>
  The operations a caller can apply to a constructed session, each with what the library
  answers during it, and the object a sequence of them leaves. An exception leaves the
  object as it was when thrown.
\<close>

datatype operation = Connect | Accept | Read | Write string | Get_error c_int

fun perform :: "tls_library \<Rightarrow> operation \<Rightarrow> SecureSocket \<Rightarrow> SecureSocket" where
  "perform lib Connect s = after (connect lib s)"
| "perform lib Accept s = after (accept lib s)"
| "perform lib Read s = after (read lib s)"
| "perform lib (Write message) s = after (write_message lib s message)"
| "perform lib (Get_error return_value) s = after (get_error lib s return_value)"

fun run :: "(tls_library \<times> operation) list \<Rightarrow> SecureSocket \<Rightarrow> SecureSocket" where
  "run [] s = s"
| "run ((lib, opn) # rest) s = run rest (perform lib opn s)"

text \<open>The session handle is bound to the descriptor of the wrapped socket.\<close>

definition descriptor_bound :: "SecureSocket \<Rightarrow> bool" where
  "descriptor_bound s \<longleftrightarrow> bound_fd (ssl s) = Some (fd_num s)"

section \<open>The contract of the library's read\<close>

text \<open>
  Modelled from the spec: what the library, which is not under src/, guarantees of a
  read. The spec's section on \<^verbatim>\<open>read()\<close> states as an invariant that "after the call, the
  library must report zero additional buffered/pending plaintext", and its external
  interfaces give the "record read/write bounded at 16384 bytes per call". The
  assertion on \<^verbatim>\<open>SSL_pending\<close> in \<^verbatim>\<open>read()\<close> checks the first.
\<close>

definition library_read_contract :: "tls_library \<Rightarrow> bool" where
  "library_read_contract lib \<longleftrightarrow>
     SSL_pending_result lib = 0 \<and> sint (SSL_read_result lib) \<le> 16384"

section \<open>Concrete inputs\<close>

text \<open>
  A library whose every call succeeds (41 lock slots, a pending-free read of zero bytes
  classified as "no error"), a raw socket on descriptor 7, a fresh session handle, and
  the session built from them; the theorems below are instantiated at variations of
  these.
\<close>

definition example_library :: tls_library where
  "example_library =
     \<lparr>CRYPTO_num_locks_result = 41,
      SSL_CTX_new_result = Some (SSL_CTX 0),
      SSL_new_result = Some \<lparr>bound_fd = None, mode = 0\<rparr>,
      SSL_set_fd_result = 1,
      SSL_connect_result = 1,
      SSL_accept_result = 1,
      SSL_read_result = 0,
      SSL_read_buffer = (\<lambda>i. if i = 0 then CHR ''h'' else CHR ''i''),
      SSL_pending_result = 0,
      SSL_get_error_result = (\<lambda>_. 0),
      ERR_get_error_result = 0,
      SSL_write_result = 1\<rparr>"

definition example_socket :: TCPSocket where
  "example_socket = \<lparr>fd_num = 7, eof = False, read_count = 0, write_count = 0\<rparr>"

definition example_handle :: SSL where
  "example_handle = \<lparr>bound_fd = None, mode = 0\<rparr>"

definition example_session :: SecureSocket where
  "example_session =
     \<lparr>fd_num = 7, eof = False, read_count = 0, write_count = 0,
      ssl = \<lparr>bound_fd = Some 7, mode = 4\<rparr>\<rparr>"

definition example_locks :: OpenSSL where
  "example_locks = \<lparr>locks = [Unlocked, Locked, Unlocked]\<rparr>"

text \<open>A payload longer than an \<^verbatim>\<open>int\<close> can count: \<open>2 ^ 32 + 5\<close> bytes.\<close>

definition long_payload :: string where
  "long_payload = replicate (2 ^ 32 + 5) CHR ''a''"

section \<open>Conversions between the integer types\<close>

text \<open>
  Widening an \<^verbatim>\<open>int\<close> to \<^verbatim>\<open>ssize_t\<close> keeps its value; read as a \<^verbatim>\<open>size_t\<close>, a
  non-negative \<^verbatim>\<open>int\<close> keeps its value and a negative one lands at or above \<open>2 ^ 31\<close>.
\<close>

lemma sint_scast_int: "sint (scast (w :: c_int) :: ssize_t) = sint w"
  by (rule sint_up_scast) (simp add: is_up)

lemma scast_int_eq_0: "(scast (w :: c_int) :: ssize_t) = 0 \<longleftrightarrow> w = 0"
proof
  assume "(scast w :: ssize_t) = 0"
  then have "sint (scast w :: ssize_t) = 0" by simp
  then have "sint w = 0" by (simp add: sint_scast_int)
  then show "w = 0" by (simp add: signed_eq_0_iff)
qed simp

lemma uint_scast_int: "uint (scast (w :: c_int) :: size_t) = sint w mod 2 ^ 64"
proof -
  have "(scast w :: size_t) = word_of_int (sint w)" by (rule scast_eq)
  then have "uint (scast w :: size_t) = uint (word_of_int (sint w) :: size_t)" by simp
  also have "\<dots> = sint w mod 2 ^ LENGTH(64)" by (rule uint_word_of_int)
  also have "\<dots> = sint w mod 2 ^ 64" by simp
  finally show ?thesis .
qed

lemma uint_scast_nonneg:
  assumes "0 \<le> sint (w :: c_int)"
  shows "uint (scast w :: size_t) = sint w"
proof -
  have "sint w < 2 ^ 31" using sint_lt [of w] by simp
  then have "sint w < 2 ^ 64" by simp
  then have "sint w mod 2 ^ 64 = sint w" using assms by (intro mod_pos_pos_trivial)
  then show ?thesis by (simp only: uint_scast_int)
qed

lemma uint_scast_neg:
  assumes "sint (w :: c_int) < 0"
  shows "2 ^ 31 \<le> uint (scast w :: size_t)"
proof -
  have lo: "- (2 ^ 31) \<le> sint w" using sint_ge [of w] by simp
  have "(sint w + 2 ^ 64) mod 2 ^ 64 = sint w + 2 ^ 64"
    using assms lo by (intro mod_pos_pos_trivial) simp_all
  then have "sint w mod 2 ^ 64 = sint w + 2 ^ 64" by simp
  then have "uint (scast w :: size_t) = sint w + 2 ^ 64" by (simp only: uint_scast_int)
  then show ?thesis using lo by simp
qed

lemma unat_scast_nonneg:
  assumes "0 \<le> sint (w :: c_int)"
  shows "unat (scast w :: size_t) = nat (sint w)"
proof -
  have "unat (scast w :: size_t) = nat (uint (scast w :: size_t))"
    by (rule unat_eq_nat_uint)
  then show ?thesis by (simp only: uint_scast_nonneg [OF assms])
qed

lemma at_in_range:
  assumes "0 \<le> sint n" and "nat (sint n) < length xs"
  shows "at xs n = Inr (nat (sint n))"
  using assms by (simp add: at_def unat_scast_nonneg)

lemma at_negative:
  assumes "sint n < 0" and "int (length xs) < 2 ^ 31"
  shows "at xs n = Inl out_of_range"
proof -
  have "int (length xs) < uint (scast n :: size_t)"
    using uint_scast_neg [OF assms(1)] assms(2) by linarith
  moreover have "int (unat (scast n :: size_t)) = uint (scast n :: size_t)"
    by (rule of_nat_unat)
  ultimately have "\<not> unat (scast n :: size_t) < length xs"
    by linarith
  then show ?thesis by (simp add: at_def)
qed

lemma at_too_large:
  assumes "0 \<le> sint n" and "length xs \<le> nat (sint n)"
  shows "at xs n = Inl out_of_range"
  using assms by (simp add: at_def unat_scast_nonneg)

text \<open>
  The length of a message shorter than \<open>2 ^ 31\<close> bytes survives the narrowing to the
  \<^verbatim>\<open>int\<close> parameter of \<^verbatim>\<open>SSL_write\<close>.
\<close>

lemma length_as_int:
  assumes "int (length (message :: string)) < 2 ^ 31"
  shows "sint (ucast (word_of_nat (length message) :: size_t) :: c_int) = int (length message)"
proof -
  have small: "length message < 2 ^ 31" using assms by simp
  then have "length message < 2 ^ 64" by (rule less_trans) simp
  then have "take_bit 64 (length message) = length message"
    by (rule take_bit_nat_eq_self)
  then have "(ucast (word_of_nat (length message) :: size_t) :: c_int)
               = word_of_nat (length message)"
    by (simp add: unsigned_of_nat)
  moreover have "signed_take_bit 31 (int (length message)) = int (length message)"
    using assms by (intro signed_take_bit_int_eq_self) simp_all
  then have "sint (word_of_nat (length message) :: c_int) = int (length message)"
    by (simp add: signed_of_nat)
  ultimately show ?thesis by simp
qed

section \<open>The branches of read\<close>

lemmas triple_simps = outcome_def after_def calls_of_def

lemma read_calls_base:
  "ucast SSL_max_record_length = (16384 :: c_int)"
  by (simp add: SSL_max_record_length_def)

lemma read_pending:
  "SSL_pending_result lib \<noteq> 0 \<Longrightarrow>
   read lib s = (Inl (assertion_failed ''0 == SSL_pending( ssl_.get() )''), s,
                 [SSL_read 16384, SSL_pending])"
  by (simp add: read_def Let_def read_calls_base)


lemma read_negative:
  assumes "SSL_pending_result lib = 0" and "sint (SSL_read_result lib) < 0"
  shows "read lib s = (Inl (ssl_error ''SSL_read''), s, [SSL_read 16384, SSL_pending])"
proof -
  have "SSL_read_result lib \<noteq> 0" using assms(2) by auto
  then show ?thesis
    using assms by (simp add: read_def Let_def read_calls_base scast_int_eq_0 sint_scast_int)
qed

lemma read_positive:
  assumes "SSL_pending_result lib = 0" and "0 < sint (SSL_read_result lib)"
    and "sint (SSL_read_result lib) \<le> 16384"
  shows "read lib s =
     (Inr (map (SSL_read_buffer lib) [0..<nat (sint (SSL_read_result lib))]),
      register_read s, [SSL_read 16384, SSL_pending])"
proof -
  have nz: "SSL_read_result lib \<noteq> 0" using assms(2) by auto
  have u: "unat (scast (SSL_read_result lib) :: size_t) = nat (sint (SSL_read_result lib))"
    using assms(2) by (intro unat_scast_nonneg) simp
  have "string_of_buffer (SSL_read_buffer lib) (scast (SSL_read_result lib))
          = Inr (map (SSL_read_buffer lib) [0..<nat (sint (SSL_read_result lib))])"
    using assms(3) by (simp add: string_of_buffer_def u SSL_max_record_length_def)
  then show ?thesis
    using assms nz
    by (simp add: read_def Let_def read_calls_base scast_int_eq_0 sint_scast_int)
qed

lemma read_issues_one_SSL_read:
  "[c \<leftarrow> calls_of (read lib s). op_name c = ''SSL_read''] = [SSL_read 16384]"
  by (simp add: read_def Let_def read_calls_base triple_simps split: sum.split)

section \<open>Effects of the notifications\<close>

lemma after_register_read [simp]:
  "read_count (register_read s) = read_count s + 1"
  "write_count (register_read s) = write_count s"
  "eof (register_read s) = eof s"
  "fd_num (register_read s) = fd_num s"
  by (simp_all add: register_read_def)

lemma after_register_write [simp]:
  "read_count (register_write s) = read_count s"
  "write_count (register_write s) = write_count s + 1"
  "eof (register_write s) = eof s"
  "fd_num (register_write s) = fd_num s"
  by (simp_all add: register_write_def)

lemma after_set_eof [simp]:
  "read_count (set_eof s) = read_count s"
  "write_count (set_eof s) = write_count s"
  "eof (set_eof s) = True"
  "fd_num (set_eof s) = fd_num s"
  by (simp_all add: set_eof_def)

lemma ssl_unchanged [simp]:
  "ssl (register_read (s :: SecureSocket)) = ssl s"
  "ssl (register_write (s :: SecureSocket)) = ssl s"
  "ssl (set_eof (s :: SecureSocket)) = ssl s"
  by (simp_all add: register_read_def register_write_def set_eof_def)

section \<open>The handshake\<close>

text \<open>
  C1 (accept). When the library's \<^verbatim>\<open>SSL_accept\<close> returns exactly 1, \<^verbatim>\<open>accept()\<close> returns
  normally, but it does so from inside the \<^verbatim>\<open>if\<close>: the object is unchanged and the
  count of read-readiness notifications is the same as before the call. The
  \<^verbatim>\<open>register_read()\<close> written after the \<^verbatim>\<open>if\<close> is not executed, so read-readiness is
  signalled zero times, not once.
\<close>

theorem accept_success_signals_nothing:
  "accept (lib\<lparr>SSL_accept_result := 1\<rparr>) s = (Inr (), s, [SSL_accept])
   \<and> read_count (after (accept (lib\<lparr>SSL_accept_result := 1\<rparr>) s)) = read_count s"
  by (simp add: accept_def triple_simps)

text \<open>
  C2 (connect). When the library's \<^verbatim>\<open>SSL_connect\<close> returns \<open>-1\<close>, a failed handshake,
  \<^verbatim>\<open>connect()\<close> does not raise: the test \<^verbatim>\<open>not SSL_connect( ... )\<close> holds for 0 only, so
  the call returns normally and signals read- and write-readiness as on success.
\<close>

theorem connect_negative_result_returns:
  "outcome (connect (lib\<lparr>SSL_connect_result := - 1\<rparr>) s) = Inr ()
   \<and> after (connect (lib\<lparr>SSL_connect_result := - 1\<rparr>) s) = register_write (register_read s)"
  by (simp add: connect_def triple_simps)

text \<open>The other halves: what the two handshake functions do on the remaining results.\<close>

lemma accept_other_result_raises:
  "SSL_accept_result lib \<noteq> 1 \<Longrightarrow>
   accept lib s = (Inl (ssl_error (op_name SSL_accept)), s, [SSL_accept])"
  by (simp add: accept_def)

lemma connect_zero_raises:
  "SSL_connect_result lib = 0 \<Longrightarrow>
   connect lib s = (Inl (ssl_error (op_name SSL_connect)), s, [SSL_connect])"
  by (simp add: connect_def)

lemma connect_nonzero_signals_both:
  "SSL_connect_result lib \<noteq> 0 \<Longrightarrow>
   outcome (connect lib s) = Inr ()
   \<and> read_count (after (connect lib s)) = read_count s + 1
   \<and> write_count (after (connect lib s)) = write_count s + 1"
  by (simp add: connect_def triple_simps)

section \<open>read\<close>



text \<open>
  C4 (read, one record). Every call to \<^verbatim>\<open>read()\<close> issues exactly one \<^verbatim>\<open>SSL_read\<close>,
  asking for at most 16384 bytes, whatever the library answers. With a library that
  keeps its read contract: a positive count \<open>n\<close> makes \<^verbatim>\<open>read()\<close> return exactly the
  \<open>n\<close> bytes the library left in the buffer and signal read-readiness once; a
  negative result raises the TLS error named after \<^verbatim>\<open>SSL_read\<close> and leaves the object
  untouched.
\<close>

theorem read_one_record:
  "[c \<leftarrow> calls_of (read lib s). op_name c = ''SSL_read''] = [SSL_read 16384]
   \<and> (library_read_contract lib \<and> 0 < sint (SSL_read_result lib) \<longrightarrow>
          outcome (read lib s)
            = Inr (map (SSL_read_buffer lib) [0..<nat (sint (SSL_read_result lib))])
          \<and> read_count (after (read lib s)) = read_count s + 1)
   \<and> (library_read_contract lib \<and> sint (SSL_read_result lib) < 0 \<longrightarrow>
          outcome (read lib s) = Inl (ssl_error (op_name (SSL_read 16384)))
          \<and> after (read lib s) = s)"
  using read_issues_one_SSL_read [of lib s]
  by (simp add: library_read_contract_def read_positive read_negative triple_simps)

text \<open>C4 at a read of two bytes and at a failed read.\<close>

theorem read_one_record_witness:
  "library_read_contract (example_library\<lparr>SSL_read_result := 2\<rparr>)
   \<and> 0 < sint (SSL_read_result (example_library\<lparr>SSL_read_result := 2\<rparr>))
   \<and> outcome (read (example_library\<lparr>SSL_read_result := 2\<rparr>) example_session) = Inr ''hi''
   \<and> read_count (after (read (example_library\<lparr>SSL_read_result := 2\<rparr>) example_session)) = 1
   \<and> library_read_contract (example_library\<lparr>SSL_read_result := - 1\<rparr>)
   \<and> sint (SSL_read_result (example_library\<lparr>SSL_read_result := - 1\<rparr>)) < 0
   \<and> outcome (read (example_library\<lparr>SSL_read_result := - 1\<rparr>) example_session)
       = Inl (ssl_error ''SSL_read'')"
  using read_one_record [of "example_library\<lparr>SSL_read_result := 2\<rparr>" example_session]
        read_one_record [of "example_library\<lparr>SSL_read_result := - 1\<rparr>" example_session]
  by (simp add: example_library_def example_session_def library_read_contract_def upt_rec)

section \<open>write\<close>

text \<open>
  What \<^verbatim>\<open>write\<close> does with each result of the library: a negative one raises the TLS
  error named after \<^verbatim>\<open>SSL_write\<close>, with the object untouched; any other returns
  normally with write-readiness signalled once. The payload goes to the library in a
  single \<^verbatim>\<open>SSL_write\<close> call, with its full length when that fits an \<^verbatim>\<open>int\<close>.
\<close>

lemma write_message_outcomes:
  "(sint (SSL_write_result lib) < 0 \<longrightarrow>
      outcome (write_message lib s message) = Inl (ssl_error ''SSL_write'')
      \<and> after (write_message lib s message) = s)
   \<and> (0 \<le> sint (SSL_write_result lib) \<longrightarrow>
      outcome (write_message lib s message) = Inr ()
      \<and> after (write_message lib s message) = register_write s)
   \<and> (\<exists>n. calls_of (write_message lib s message) = [SSL_write message n]
          \<and> (int (length message) < 2 ^ 31 \<longrightarrow> sint n = int (length message)))"
  by (simp add: write_message_def Let_def sint_scast_int triple_simps length_as_int)

text \<open>
  A payload of \<open>2 ^ 32 + 5\<close> bytes has its length narrowed to 5 on the way to the
  \<^verbatim>\<open>int\<close> parameter of \<^verbatim>\<open>SSL_write\<close>.
\<close>

lemma length_long_payload: "length long_payload = 2 ^ 32 + 5"
  by (simp only: long_payload_def length_replicate)

text \<open>
  C5 (write, all or nothing). For a payload of \<open>2 ^ 32 + 5\<close> bytes, \<^verbatim>\<open>write\<close> asks the
  library to write 5 bytes only; when the library writes those 5 and says so, \<^verbatim>\<open>write\<close>
  returns normally and signals write-readiness. The payload was not written as a whole
  and nothing was raised.
\<close>

theorem write_truncates_long_payload:
  "length long_payload = 2 ^ 32 + 5
   \<and> calls_of (write_message (lib\<lparr>SSL_write_result := 5\<rparr>) s long_payload)
       = [SSL_write long_payload 5]
   \<and> outcome (write_message (lib\<lparr>SSL_write_result := 5\<rparr>) s long_payload) = Inr ()
   \<and> after (write_message (lib\<lparr>SSL_write_result := 5\<rparr>) s long_payload) = register_write s"
  by (simp add: write_message_def Let_def triple_simps length_long_payload)

text \<open>
  C10 (write, zero bytes). A result of exactly zero from the library's write is treated
  as success: no error is raised and write-readiness is signalled; \<^verbatim>\<open>write\<close> raises if
  and only if the library's result is strictly negative.
\<close>

theorem write_zero_is_success:
  "(SSL_write_result lib = 0 \<longrightarrow>
      outcome (write_message lib s message) = Inr ()
      \<and> write_count (after (write_message lib s message)) = write_count s + 1)
   \<and> ((\<exists>e. outcome (write_message lib s message) = Inl e) \<longleftrightarrow> sint (SSL_write_result lib) < 0)"
  by (simp add: write_message_def Let_def sint_scast_int triple_simps)

text \<open>C10 at a write of five bytes for which the library returns 0.\<close>

theorem write_zero_is_success_witness:
  "SSL_write_result (example_library\<lparr>SSL_write_result := 0\<rparr>) = 0
   \<and> outcome (write_message (example_library\<lparr>SSL_write_result := 0\<rparr>) example_session ''hello'')
       = Inr ()
   \<and> write_count (after (write_message (example_library\<lparr>SSL_write_result := 0\<rparr>)
                             example_session ''hello'')) = 1"
  using write_zero_is_success [of "example_library\<lparr>SSL_write_result := 0\<rparr>" example_session "''hello''"]
  by (simp add: example_session_def)

section \<open>Context creation\<close>

text \<open>
  C6 (context creation). When \<^verbatim>\<open>SSL_CTX_new\<close> returns no handle,
  \<^verbatim>\<open>initialize_new_context\<close> raises a TLS error and returns no context, but the tag it
  carries is \<^verbatim>\<open>SSL_CTL_new\<close>: not the name of the call that failed (\<^verbatim>\<open>SSL_CTX_new\<close>), nor
  of any library function.
\<close>

theorem initialize_new_context_misnames_call:
  "initialize_new_context (lib\<lparr>SSL_CTX_new_result := None\<rparr>) (Some os)
     = (Inl (ssl_error ''SSL_CTL_new''), Some os, [SSLv23_client_method, SSL_CTX_new])
   \<and> ssl_error ''SSL_CTL_new'' \<noteq> ssl_error (op_name SSL_CTX_new)"
  by (simp add: initialize_new_context_def global_context_def)

section \<open>Construction of a session\<close>

text \<open>
  C7 (null session handle). For every raw socket and whatever the library would answer,
  constructing a \<^verbatim>\<open>SecureSocket\<close> from a null session handle throws the generic
  \<^verbatim>\<open>runtime_error\<close> before any library call is made: not the TLS error, and no object
  is produced.
\<close>

theorem SecureSocket_null_handle:
  "SecureSocket lib sock None
     = (Inl (runtime_error ''SecureSocket: constructor must be passed valid SSL structure''), [])
   \<and> (\<forall>tag. fst (SecureSocket lib sock None) \<noteq> Inl (ssl_error tag))
   \<and> (\<forall>s. fst (SecureSocket lib sock None) \<noteq> Inr s)"
  by (simp add: SecureSocket_def)

text \<open>No member function rebinds the handle or changes the descriptor.\<close>

lemma perform_keeps_binding:
  "descriptor_bound s \<Longrightarrow> descriptor_bound (perform lib opn s)"
proof (cases opn)
  case Connect
  assume "descriptor_bound s"
  then show ?thesis using Connect
    by (simp add: descriptor_bound_def connect_def after_def)
next
  case Accept
  assume "descriptor_bound s"
  then show ?thesis using Accept
    by (simp add: descriptor_bound_def accept_def Let_def after_def)
next
  case Read
  assume "descriptor_bound s"
  then show ?thesis using Read
    by (simp add: descriptor_bound_def read_def Let_def after_def split: sum.split)
next
  case (Write message)
  assume "descriptor_bound s"
  then show ?thesis using Write
    by (simp add: descriptor_bound_def write_message_def Let_def after_def)
next
  case (Get_error return_value)
  assume "descriptor_bound s"
  then show ?thesis using Get_error
    by (simp add: descriptor_bound_def get_error_def after_def)
qed

lemma run_keeps_binding:
  "descriptor_bound s \<Longrightarrow> descriptor_bound (run ops s)"
proof (induction ops arbitrary: s)
  case Nil
  then show ?case by simp
next
  case (Cons step rest)
  obtain lib opn where step: "step = (lib, opn)" by (cases step)
  have "descriptor_bound (perform lib opn s)"
    using Cons.prems by (rule perform_keeps_binding)
  then have "descriptor_bound (run rest (perform lib opn s))"
    by (rule Cons.IH)
  then show ?case by (simp add: step)
qed

text \<open>
  C8 (bound descriptor). When the binding succeeds, construction yields a session whose
  handle is bound to the descriptor of the wrapped raw socket, and the binding still
  holds after every sequence of \<^verbatim>\<open>connect\<close>, \<^verbatim>\<open>accept\<close>, \<^verbatim>\<open>read\<close>, \<^verbatim>\<open>write\<close> and
  \<^verbatim>\<open>get_error\<close>, whatever the library answers and whether or not they raise. When the
  binding fails, the constructor raises the TLS error named after \<^verbatim>\<open>SSL_set_fd\<close>.
\<close>

theorem descriptor_stays_bound:
  "(SSL_set_fd_result lib \<noteq> 0 \<longrightarrow>
      (\<exists>s. fst (SecureSocket lib sock (Some h)) = Inr s
           \<and> fd_num s = fd_num sock
           \<and> descriptor_bound s
           \<and> (\<forall>ops. descriptor_bound (run ops s))))
   \<and> (SSL_set_fd_result lib = 0 \<longrightarrow>
      fst (SecureSocket lib sock (Some h)) = Inl (ssl_error ''SSL_set_fd''))"
proof (intro conjI impI)
  assume ok: "SSL_set_fd_result lib \<noteq> 0"
  define s where "s = \<lparr>fd_num = fd_num sock, eof = eof sock,
                  read_count = read_count sock, write_count = write_count sock,
                  ssl = set_mode (set_fd h (fd_num sock)) SSL_MODE_AUTO_RETRY\<rparr>"
  have built: "fst (SecureSocket lib sock (Some h)) = Inr s"
    using ok by (simp add: SecureSocket_def s_def)
  have fd: "fd_num s = fd_num sock" by (simp add: s_def)
  have bound: "descriptor_bound s"
    by (simp add: descriptor_bound_def s_def set_mode_def set_fd_def)
  have "\<forall>ops. descriptor_bound (run ops s)"
    using bound by (simp add: run_keeps_binding)
  with built fd bound
  show "\<exists>s. fst (SecureSocket lib sock (Some h)) = Inr s \<and> fd_num s = fd_num sock
           \<and> descriptor_bound s \<and> (\<forall>ops. descriptor_bound (run ops s))"
    by blast
next
  assume "SSL_set_fd_result lib = 0"
  then show "fst (SecureSocket lib sock (Some h)) = Inl (ssl_error ''SSL_set_fd'')"
    by (simp add: SecureSocket_def)
qed

text \<open>C8 at the example socket, followed by five operations, and at a failed binding.\<close>

theorem descriptor_stays_bound_witness:
  "SSL_set_fd_result example_library \<noteq> 0
   \<and> (\<exists>s. fst (SecureSocket example_library example_socket (Some example_handle)) = Inr s
          \<and> fd_num s = 7
          \<and> bound_fd (ssl s) = Some 7
          \<and> descriptor_bound
               (run [(example_library, Connect),
                     (example_library, Write ''hello''),
                     (example_library\<lparr>SSL_read_result := 2\<rparr>, Read),
                     (example_library, Get_error 0),
                     (example_library\<lparr>SSL_accept_result := 0\<rparr>, Accept)] s))
   \<and> SSL_set_fd_result (example_library\<lparr>SSL_set_fd_result := 0\<rparr>) = 0
   \<and> fst (SecureSocket (example_library\<lparr>SSL_set_fd_result := 0\<rparr>) example_socket
             (Some example_handle)) = Inl (ssl_error ''SSL_set_fd'')"
proof -
  have ok: "SSL_set_fd_result example_library \<noteq> 0"
    by (simp add: example_library_def)
  have bad: "SSL_set_fd_result (example_library\<lparr>SSL_set_fd_result := 0\<rparr>) = 0"
    by simp
  from descriptor_stays_bound [of example_library example_socket example_handle] ok
  obtain s where s: "fst (SecureSocket example_library example_socket (Some example_handle)) = Inr s"
      "fd_num s = fd_num example_socket" "descriptor_bound s"
      "\<forall>ops. descriptor_bound (run ops s)"
    by blast
  have "fd_num s = 7" using s(2) by (simp add: example_socket_def)
  moreover have "bound_fd (ssl s) = Some 7"
    using s(3) \<open>fd_num s = 7\<close> by (simp add: descriptor_bound_def)
  moreover have "fst (SecureSocket (example_library\<lparr>SSL_set_fd_result := 0\<rparr>) example_socket
             (Some example_handle)) = Inl (ssl_error ''SSL_set_fd'')"
    using descriptor_stays_bound
            [of "example_library\<lparr>SSL_set_fd_result := 0\<rparr>" example_socket example_handle] bad
    by blast
  ultimately show ?thesis using ok bad s(1) s(4) by blast
qed

section \<open>The locking callback\<close>

text \<open>
  The lock array has as many slots as the \<^verbatim>\<open>int\<close> the library reported, so fewer than
  \<open>2 ^ 31\<close>, and the callback keeps its size.
\<close>

lemma OpenSSL_ctor_size:
  assumes "OpenSSL_ctor lib = (Inr os, calls)"
  shows "int (length (locks os)) < 2 ^ 31"
proof -
  let ?n = "CRYPTO_num_locks_result lib"
  have nonneg: "0 \<le> sint ?n"
    using assms by (simp add: OpenSSL_ctor_def Let_def split: if_splits)
  then have "locks os = replicate (unat (scast ?n :: size_t)) Unlocked"
    using assms by (auto simp add: OpenSSL_ctor_def Let_def split: if_splits)
  then have "length (locks os) = nat (sint ?n)"
    by (simp add: unat_scast_nonneg [OF nonneg])
  then have "int (length (locks os)) = sint ?n" using nonneg by simp
  then show ?thesis using sint_lt [of ?n] by simp
qed

lemma locking_function_size:
  "locking_function os md n = Inr os' \<Longrightarrow> length (locks os') = length (locks os)"
  by (auto simp add: locking_function_def split: if_splits sum.splits)

text \<open>
  C9 (locking callback). For a slot index within the lock array, the callback leaves
  that slot held when the mode has the lock-intent bit and free when it has not (so on
  every unlock intent), and touches no other slot; for an index outside the array,
  negative or too large, \<^verbatim>\<open>at\<close> throws \<^verbatim>\<open>std::out_of_range\<close> and no slot is touched.
\<close>

theorem locking_function_bounds_checked:
  assumes "int (length (locks os)) < 2 ^ 31"
  shows "(0 \<le> sint n \<and> nat (sint n) < length (locks os) \<longrightarrow>
            (md AND CRYPTO_LOCK \<noteq> 0 \<longrightarrow>
               locking_function os md n = Inr (os\<lparr>locks := (locks os)[nat (sint n) := Locked]\<rparr>))
          \<and> (md AND CRYPTO_LOCK = 0 \<longrightarrow>
               locking_function os md n = Inr (os\<lparr>locks := (locks os)[nat (sint n) := Unlocked]\<rparr>)))
       \<and> (sint n < 0 \<or> length (locks os) \<le> nat (sint n) \<longrightarrow>
            locking_function os md n = Inl out_of_range)"
proof (intro conjI impI)
  assume "0 \<le> sint n \<and> nat (sint n) < length (locks os)"
  then have at: "at (locks os) n = Inr (nat (sint n))" by (simp add: at_in_range)
  { assume "md AND CRYPTO_LOCK \<noteq> 0"
    then show "locking_function os md n = Inr (os\<lparr>locks := (locks os)[nat (sint n) := Locked]\<rparr>)"
      by (simp add: locking_function_def at) }
  { assume "md AND CRYPTO_LOCK = 0"
    then show "locking_function os md n = Inr (os\<lparr>locks := (locks os)[nat (sint n) := Unlocked]\<rparr>)"
      by (simp add: locking_function_def at) }
next
  assume out: "sint n < 0 \<or> length (locks os) \<le> nat (sint n)"
  have "at (locks os) n = Inl out_of_range"
  proof (cases "sint n < 0")
    case True
    then show ?thesis using assms by (rule at_negative)
  next
    case False
    then show ?thesis using out by (intro at_too_large) simp_all
  qed
  then show "locking_function os md n = Inl out_of_range"
    by (simp add: locking_function_def)
qed

text \<open>C9 on an array of three slots: lock, unlock, and two indices out of range.\<close>

theorem locking_function_bounds_checked_witness:
  "int (length (locks example_locks)) < 2 ^ 31
   \<and> locking_function example_locks CRYPTO_LOCK 2 = Inr \<lparr>locks = [Unlocked, Locked, Locked]\<rparr>
   \<and> locking_function example_locks CRYPTO_UNLOCK 1 = Inr \<lparr>locks = [Unlocked, Unlocked, Unlocked]\<rparr>
   \<and> locking_function example_locks CRYPTO_LOCK 3 = Inl out_of_range
   \<and> locking_function example_locks CRYPTO_UNLOCK (- 1) = Inl out_of_range"
  using locking_function_bounds_checked [of example_locks 2 CRYPTO_LOCK]
        locking_function_bounds_checked [of example_locks 1 CRYPTO_UNLOCK]
        locking_function_bounds_checked [of example_locks 3 CRYPTO_LOCK]
        locking_function_bounds_checked [of example_locks "- 1" CRYPTO_UNLOCK]
  by (simp add: example_locks_def CRYPTO_LOCK_def CRYPTO_UNLOCK_def)

end
